theory Spec2Isabelle
  imports Main
begin

section \<open>Solidity 0.8 arithmetic and failures\<close>

text \<open>
  The contracts are compiled with \<^verbatim>\<open>pragma solidity ^0.8.19\<close>: every \<^verbatim>\<open>uint256\<close> operation is
  checked and reverts the whole transaction with a panic instead of wrapping.  Unsigned values
  are modelled as \<open>nat\<close>, signed ones as \<open>int\<close>, and every check the compiler inserts is a
  branch of the model.  A reverted call is a value \<open>Inl e\<close>: it carries no state, because the
  EVM rolls every storage write of the call back.  Events are not part of the state and are
  left out.
\<close>

type_synonym address = nat

datatype error =
    Revert string            \<comment> \<open>\<^verbatim>\<open>require(cond, message)\<close> failed\<close>
  | Panic_Overflow           \<comment> \<open>checked arithmetic left the range of its type\<close>
  | Panic_DivisionByZero     \<comment> \<open>division by zero\<close>
  | MissingRole              \<comment> \<open>\<^verbatim>\<open>onlyRole\<close> of AccessControl refused the caller\<close>
  | RevertWithoutReason      \<comment> \<open>an external call to an address without code, or an answer that does not decode\<close>

definition MAX_UINT256 :: nat where
  "MAX_UINT256 = 2 ^ 256 - 1"

definition MAX_INT256 :: int where
  "MAX_INT256 = 2 ^ 255 - 1"

definition MIN_INT256 :: int where
  "MIN_INT256 = - (2 ^ 255)"


definition is_int256 :: "int \<Rightarrow> bool" where
  "is_int256 i = (MIN_INT256 \<le> i \<and> i \<le> MAX_INT256)"

definition bind_result :: "error + 'a \<Rightarrow> ('a \<Rightarrow> error + 'b) \<Rightarrow> error + 'b" where
  "bind_result r f = (case r of Inl e \<Rightarrow> Inl e | Inr x \<Rightarrow> f x)"

definition require :: "bool \<Rightarrow> string \<Rightarrow> error + unit" where
  "require cond msg = (if cond then Inr () else Inl (Revert msg))"

definition checked_add :: "nat \<Rightarrow> nat \<Rightarrow> error + nat" where
  "checked_add a b = (if a + b \<le> MAX_UINT256 then Inr (a + b) else Inl Panic_Overflow)"

definition checked_sub :: "nat \<Rightarrow> nat \<Rightarrow> error + nat" where
  "checked_sub a b = (if b \<le> a then Inr (a - b) else Inl Panic_Overflow)"

definition checked_mul :: "nat \<Rightarrow> nat \<Rightarrow> error + nat" where
  "checked_mul a b = (if a * b \<le> MAX_UINT256 then Inr (a * b) else Inl Panic_Overflow)"

definition checked_div :: "nat \<Rightarrow> nat \<Rightarrow> error + nat" where
  "checked_div a b = (if b = 0 then Inl Panic_DivisionByZero else Inr (a div b))"

definition checked_pow :: "nat \<Rightarrow> nat \<Rightarrow> error + nat" where
  "checked_pow a b = (if a ^ b \<le> MAX_UINT256 then Inr (a ^ b) else Inl Panic_Overflow)"

text \<open>Unary minus on \<^verbatim>\<open>int256\<close> is checked: only the least value has no negation.\<close>

definition checked_neg :: "int \<Rightarrow> error + int" where
  "checked_neg i = (if i = MIN_INT256 then Inl Panic_Overflow else Inr (- i))"

text \<open>
  The explicit conversions \<^verbatim>\<open>uint256(i)\<close> and \<^verbatim>\<open>int256(n)\<close> are not checked: they reinterpret
  the 256 bits.
\<close>

definition to_uint256 :: "int \<Rightarrow> nat" where
  "to_uint256 i = nat (i mod 2 ^ 256)"

definition to_int256 :: "nat \<Rightarrow> int" where
  "to_int256 n = (if n mod 2 ^ 256 < 2 ^ 255 then int (n mod 2 ^ 256) else int (n mod 2 ^ 256) - 2 ^ 256)"

section \<open>Inherited state: AccessControl and Pausable\<close>

text \<open>
  The three contracts inherit \<^verbatim>\<open>AccessControlUpgradeable\<close>; the token and the controller also
  inherit \<^verbatim>\<open>PausableUpgradeable\<close>.  Both come from the OpenZeppelin library: their storage is
  the role table and the pause flag, and the modifiers \<^verbatim>\<open>onlyRole\<close> and \<^verbatim>\<open>whenNotPaused\<close>
  revert when the caller lacks the role or the contract is paused.
\<close>

datatype role = DEFAULT_ADMIN_ROLE | REBASER_ROLE | PAUSER_ROLE | OPERATOR_ROLE | ORACLE_MANAGER_ROLE

record access_control =
  hasRole :: "role \<Rightarrow> address \<Rightarrow> bool"
  paused :: bool

definition onlyRole :: "'a access_control_scheme \<Rightarrow> role \<Rightarrow> address \<Rightarrow> error + unit" where
  "onlyRole s r sender = (if hasRole s r sender then Inr () else Inl MissingRole)"

definition whenNotPaused :: "'a access_control_scheme \<Rightarrow> error + unit" where
  "whenNotPaused s = require (\<not> paused s) ''Pausable: paused''"

definition whenPaused :: "'a access_control_scheme \<Rightarrow> error + unit" where
  "whenPaused s = require (paused s) ''Pausable: not paused''"

section \<open>ECashToken: the elastic-supply ledger\<close>

definition INITIAL_FRAGMENTS_SUPPLY :: nat where
  "INITIAL_FRAGMENTS_SUPPLY = 1000000 * 10 ^ 18"

definition TOTAL_GONS :: nat where
  "TOTAL_GONS = MAX_UINT256 - (MAX_UINT256 mod INITIAL_FRAGMENTS_SUPPLY)"

definition MAX_SUPPLY :: nat where
  "MAX_SUPPLY = 2 ^ 128 - 1"

text \<open>
  The storage of the token.  \<open>rebaseCount\<close> is the token's own epoch counter (the controller
  has a counter of the same name).
\<close>

record token = access_control +
  totalSupply :: nat
  gonsPerFragment :: nat
  gonBalances :: "address \<Rightarrow> nat"
  allowedFragments :: "address \<Rightarrow> address \<Rightarrow> nat"
  rebaseCount :: nat

text \<open>\<^verbatim>\<open>initialize(name, symbol, admin)\<close>, run once on zeroed storage (the ERC-20 name and symbol
  are metadata and are not kept).\<close>

definition initialize :: "address \<Rightarrow> token" where
  "initialize admin =
     \<lparr> hasRole = (\<lambda>r a. a = admin \<and> (r = DEFAULT_ADMIN_ROLE \<or> r = REBASER_ROLE \<or> r = PAUSER_ROLE)),
       paused = False,
       totalSupply = INITIAL_FRAGMENTS_SUPPLY,
       gonsPerFragment = TOTAL_GONS div INITIAL_FRAGMENTS_SUPPLY,
       gonBalances = (\<lambda>a. if a = admin then TOTAL_GONS else 0),
       allowedFragments = (\<lambda>owner spender. 0),
       rebaseCount = 0 \<rparr>"

text \<open>
  \<^verbatim>\<open>rebase(int256 supplyDelta)\<close>.  The result is the returned supply and the new storage.
  A contraction by at least the whole supply is clamped to a new supply of 0; the bound is
  checked, the supply is stored, and the division \<^verbatim>\<open>TOTAL_GONS / _totalSupply\<close> then panics.
\<close>

definition rebase :: "address \<Rightarrow> int \<Rightarrow> token \<Rightarrow> error + (nat \<times> token)" where
  "rebase sender supplyDelta s =
     bind_result (onlyRole s REBASER_ROLE sender) (\<lambda>_.
     bind_result (whenNotPaused s) (\<lambda>_.
     bind_result (checked_add (token.rebaseCount s) 1) (\<lambda>count.
       let s1 = s\<lparr>token.rebaseCount := count\<rparr> in
       if supplyDelta = 0 then Inr (totalSupply s1, s1)
       else
         bind_result
           (if supplyDelta < 0 then
              bind_result (checked_neg supplyDelta) (\<lambda>negated.
                let deltaAbs = to_uint256 negated in
                Inr (if totalSupply s1 > deltaAbs then totalSupply s1 - deltaAbs else 0))
            else
              (let deltaAbs = to_uint256 supplyDelta in
               checked_add (totalSupply s1) deltaAbs))
           (\<lambda>newTotalSupply.
     bind_result (require (newTotalSupply \<le> MAX_SUPPLY) ''Max supply exceeded'') (\<lambda>_.
       let s2 = s1\<lparr>totalSupply := newTotalSupply\<rparr> in
     bind_result (checked_div TOTAL_GONS (totalSupply s2)) (\<lambda>gpf.
       let s3 = s2\<lparr>gonsPerFragment := gpf\<rparr> in
       Inr (totalSupply s3, s3)))))))"

text \<open>\<^verbatim>\<open>balanceOf(account)\<close> and \<^verbatim>\<open>scaledBalanceOf(account)\<close>.\<close>

definition balanceOf :: "token \<Rightarrow> address \<Rightarrow> error + nat" where
  "balanceOf s account = checked_div (gonBalances s account) (gonsPerFragment s)"

definition scaledBalanceOf :: "token \<Rightarrow> address \<Rightarrow> nat" where
  "scaledBalanceOf s account = gonBalances s account"

text \<open>\<^verbatim>\<open>transfer(to, amount)\<close>: the two balance updates are checked subtraction and addition.\<close>

definition transfer :: "address \<Rightarrow> address \<Rightarrow> nat \<Rightarrow> token \<Rightarrow> error + token" where
  "transfer sender to amount s =
     bind_result (whenNotPaused s) (\<lambda>_.
     bind_result (checked_mul amount (gonsPerFragment s)) (\<lambda>gonAmount.
     bind_result (checked_sub (gonBalances s sender) gonAmount) (\<lambda>fromBal.
       let s1 = s\<lparr>gonBalances := (gonBalances s)(sender := fromBal)\<rparr> in
     bind_result (checked_add (gonBalances s1 to) gonAmount) (\<lambda>toBal.
       Inr (s1\<lparr>gonBalances := (gonBalances s1)(to := toBal)\<rparr>)))))"

definition transferFrom :: "address \<Rightarrow> address \<Rightarrow> address \<Rightarrow> nat \<Rightarrow> token \<Rightarrow> error + token" where
  "transferFrom sender from to amount s =
     bind_result (whenNotPaused s) (\<lambda>_.
     bind_result (checked_mul amount (gonsPerFragment s)) (\<lambda>gonAmount.
     bind_result
       (if allowedFragments s from sender \<noteq> MAX_UINT256 then
          bind_result (checked_sub (allowedFragments s from sender) amount) (\<lambda>left.
            Inr (s\<lparr>allowedFragments :=
                      (allowedFragments s)(from := (allowedFragments s from)(sender := left))\<rparr>))
        else Inr s)
       (\<lambda>s1.
     bind_result (checked_sub (gonBalances s1 from) gonAmount) (\<lambda>fromBal.
       let s2 = s1\<lparr>gonBalances := (gonBalances s1)(from := fromBal)\<rparr> in
     bind_result (checked_add (gonBalances s2 to) gonAmount) (\<lambda>toBal.
       Inr (s2\<lparr>gonBalances := (gonBalances s2)(to := toBal)\<rparr>))))))"

definition approve :: "address \<Rightarrow> address \<Rightarrow> nat \<Rightarrow> token \<Rightarrow> token" where
  "approve sender spender amount s =
     s\<lparr>allowedFragments := (allowedFragments s)(sender := (allowedFragments s sender)(spender := amount))\<rparr>"

definition allowance :: "token \<Rightarrow> address \<Rightarrow> address \<Rightarrow> nat" where
  "allowance s owner spender = allowedFragments s owner spender"

definition pause :: "address \<Rightarrow> token \<Rightarrow> error + token" where
  "pause sender s =
     bind_result (onlyRole s PAUSER_ROLE sender) (\<lambda>_.
     bind_result (whenNotPaused s) (\<lambda>_.
       Inr (s\<lparr>paused := True\<rparr>)))"

definition unpause :: "address \<Rightarrow> token \<Rightarrow> error + token" where
  "unpause sender s =
     bind_result (onlyRole s PAUSER_ROLE sender) (\<lambda>_.
     bind_result (whenPaused s) (\<lambda>_.
       Inr (s\<lparr>paused := False\<rparr>)))"

text \<open>
  The ledger states that can arise: the initialised storage, then any sequence of successful
  calls.  Role administration (\<^verbatim>\<open>grantRole\<close>, \<^verbatim>\<open>revokeRole\<close>, \<^verbatim>\<open>renounceRole\<close> of
  AccessControl) only rewrites the role table.
\<close>

inductive token_reachable :: "token \<Rightarrow> bool" where
  reach_initialize: "token_reachable (initialize admin)"
| reach_rebase: "token_reachable s \<Longrightarrow> rebase sender supplyDelta s = Inr (r, s') \<Longrightarrow> token_reachable s'"
| reach_transfer: "token_reachable s \<Longrightarrow> transfer sender to amount s = Inr s' \<Longrightarrow> token_reachable s'"
| reach_transferFrom:
    "token_reachable s \<Longrightarrow> transferFrom sender from to amount s = Inr s' \<Longrightarrow> token_reachable s'"
| reach_approve: "token_reachable s \<Longrightarrow> token_reachable (approve sender spender amount s)"
| reach_pause: "token_reachable s \<Longrightarrow> pause sender s = Inr s' \<Longrightarrow> token_reachable s'"
| reach_unpause: "token_reachable s \<Longrightarrow> unpause sender s = Inr s' \<Longrightarrow> token_reachable s'"
| reach_roles: "token_reachable s \<Longrightarrow> token_reachable (s\<lparr>hasRole := table\<rparr>)"


section \<open>StabilizationController\<close>

definition TARGET_PRICE :: nat where
  "TARGET_PRICE = 10 ^ 18"

definition REBASE_COOLDOWN :: nat where
  "REBASE_COOLDOWN = 12 * 3600"

definition MAX_REBASE_PERCENTAGE :: nat where
  "MAX_REBASE_PERCENTAGE = 10 * 10 ^ 16"

definition BAND_1_THRESHOLD :: nat where
  "BAND_1_THRESHOLD = 1 * 10 ^ 16"

definition BAND_2_THRESHOLD :: nat where
  "BAND_2_THRESHOLD = 5 * 10 ^ 16"

definition BAND_3_THRESHOLD :: nat where
  "BAND_3_THRESHOLD = 10 * 10 ^ 16"

definition BAND_4_THRESHOLD :: nat where
  "BAND_4_THRESHOLD = 20 * 10 ^ 16"

definition BAND_1_DAMPING :: nat where
  "BAND_1_DAMPING = 10 * 10 ^ 16"

definition BAND_2_DAMPING :: nat where
  "BAND_2_DAMPING = 25 * 10 ^ 16"

definition BAND_3_DAMPING :: nat where
  "BAND_3_DAMPING = 50 * 10 ^ 16"

definition BAND_4_DAMPING :: nat where
  "BAND_4_DAMPING = 75 * 10 ^ 16"

text \<open>The struct \<^verbatim>\<open>RebaseData\<close>; its fields carry the prefix \<open>rd_\<close>.\<close>

record RebaseData =
  rd_timestamp :: nat
  rd_price :: nat
  rd_supplyDelta :: int
  rd_newSupply :: nat
  rd_stabilityBand :: nat

text \<open>
  The storage of the controller.  The references to the token, the aggregator and the treasury
  are fixed at initialisation; the model hands the token's storage and the outcome of the
  aggregator's query to the functions that use them.
\<close>

record controller = access_control +
  lastRebaseTime :: nat
  rebaseCount :: nat
  circuitBreakerActive :: bool
  rebaseHistory :: "nat \<Rightarrow> RebaseData"

definition controller_initialize :: "address \<Rightarrow> controller" where
  "controller_initialize admin =
     \<lparr> hasRole = (\<lambda>r a. a = admin \<and> (r = DEFAULT_ADMIN_ROLE \<or> r = OPERATOR_ROLE)),
       paused = False,
       lastRebaseTime = 0,
       rebaseCount = 0,
       circuitBreakerActive = False,
       rebaseHistory = (\<lambda>epoch. \<lparr> rd_timestamp = 0, rd_price = 0, rd_supplyDelta = 0,
                                   rd_newSupply = 0, rd_stabilityBand = 0 \<rparr>) \<rparr>"

definition calculateDeviation :: "nat \<Rightarrow> error + nat" where
  "calculateDeviation price =
     (if price \<ge> TARGET_PRICE then
        bind_result (checked_sub price TARGET_PRICE) (\<lambda>diff.
        bind_result (checked_mul diff (10 ^ 18)) (\<lambda>scaled.
          checked_div scaled TARGET_PRICE))
      else
        bind_result (checked_sub TARGET_PRICE price) (\<lambda>diff.
        bind_result (checked_mul diff (10 ^ 18)) (\<lambda>scaled.
          checked_div scaled TARGET_PRICE)))"

definition getStabilityBand :: "nat \<Rightarrow> nat" where
  "getStabilityBand deviation =
     (if deviation \<ge> BAND_4_THRESHOLD then 4
      else if deviation \<ge> BAND_3_THRESHOLD then 3
      else if deviation \<ge> BAND_2_THRESHOLD then 2
      else if deviation \<ge> BAND_1_THRESHOLD then 1
      else 0)"

definition getDampingFactor :: "nat \<Rightarrow> nat" where
  "getDampingFactor band =
     (if band = 4 then BAND_4_DAMPING
      else if band = 3 then BAND_3_DAMPING
      else if band = 2 then BAND_2_DAMPING
      else if band = 1 then BAND_1_DAMPING
      else 0)"

text \<open>The three intermediate values of \<^verbatim>\<open>_calculateSupplyDelta\<close>, each a checked product
  followed by a division by \<open>1e18\<close>.\<close>

definition rawAdjustment :: "nat \<Rightarrow> nat \<Rightarrow> error + nat" where
  "rawAdjustment currentSupply deviation =
     bind_result (checked_mul currentSupply deviation) (\<lambda>m. checked_div m (10 ^ 18))"

definition dampedAdjustment :: "nat \<Rightarrow> nat \<Rightarrow> error + nat" where
  "dampedAdjustment raw dampingFactor =
     bind_result (checked_mul raw dampingFactor) (\<lambda>m. checked_div m (10 ^ 18))"

definition maxAdjustment :: "nat \<Rightarrow> error + nat" where
  "maxAdjustment currentSupply =
     bind_result (checked_mul currentSupply MAX_REBASE_PERCENTAGE) (\<lambda>m. checked_div m (10 ^ 18))"

definition calculateSupplyDelta :: "token \<Rightarrow> nat \<Rightarrow> nat \<Rightarrow> error + int" where
  "calculateSupplyDelta tok price stabilityBand =
     (if price = TARGET_PRICE then Inr 0
      else
        let currentSupply = totalSupply tok in
        bind_result (calculateDeviation price) (\<lambda>deviation.
        let dampingFactor = getDampingFactor stabilityBand in
        bind_result (rawAdjustment currentSupply deviation) (\<lambda>raw.
        bind_result (dampedAdjustment raw dampingFactor) (\<lambda>damped.
        bind_result (maxAdjustment currentSupply) (\<lambda>cap.
        let capped = (if damped > cap then cap else damped) in
        if price > TARGET_PRICE then Inr (to_int256 capped)
        else checked_neg (to_int256 capped))))))"

definition canRebase :: "nat \<Rightarrow> controller \<Rightarrow> error + bool" where
  "canRebase now c =
     bind_result (checked_add (lastRebaseTime c) REBASE_COOLDOWN) (\<lambda>ready. Inr (now \<ge> ready))"

text \<open>
  \<^verbatim>\<open>StabilizationController.rebase()\<close>.  \<open>sender\<close> is the caller, \<open>this\<close> the controller's own
  address (the caller of the token), \<open>now\<close> the block timestamp and \<open>aggregated\<close> the outcome
  of \<^verbatim>\<open>oracleAggregator.getAggregatedPrice()\<close>, whose failure reverts the call.
\<close>

definition controller_rebase ::
  "address \<Rightarrow> address \<Rightarrow> nat \<Rightarrow> error + nat \<times> nat \<times> nat \<Rightarrow> controller \<times> token
     \<Rightarrow> error + controller \<times> token" where
  "controller_rebase sender this now aggregated st =
     (case st of (c, tok) \<Rightarrow>
     bind_result (onlyRole c OPERATOR_ROLE sender) (\<lambda>_.
     bind_result (whenNotPaused c) (\<lambda>_.
     bind_result (require (\<not> circuitBreakerActive c) ''Circuit breaker active'') (\<lambda>_.
     bind_result (canRebase now c) (\<lambda>ready.
     bind_result (require ready ''Rebase conditions not met'') (\<lambda>_.
     bind_result aggregated (\<lambda>(price, timestamp, confidence).
     bind_result (require (confidence \<ge> 50) ''Insufficient oracle confidence'') (\<lambda>_.
     bind_result (calculateDeviation price) (\<lambda>deviation.
       let stabilityBand = getStabilityBand deviation in
       if deviation \<ge> BAND_4_THRESHOLD then Inr (c\<lparr>circuitBreakerActive := True\<rparr>, tok)
       else
     bind_result (calculateSupplyDelta tok price stabilityBand) (\<lambda>supplyDelta.
       if supplyDelta \<noteq> 0 then
         bind_result (rebase this supplyDelta tok) (\<lambda>(newSupply, tok').
         bind_result (checked_add (rebaseCount c) 1) (\<lambda>count.
           let c1 = c\<lparr>rebaseCount := count\<rparr>;
               c2 = c1\<lparr>lastRebaseTime := now\<rparr>;
               c3 = c2\<lparr>rebaseHistory := (rebaseHistory c2)(rebaseCount c2 :=
                      \<lparr> rd_timestamp = timestamp, rd_price = price, rd_supplyDelta = supplyDelta,
                        rd_newSupply = newSupply, rd_stabilityBand = stabilityBand \<rparr>)\<rparr>
           in Inr (c3, tok')))
       else Inr (c, tok)))))))))))"

definition resetCircuitBreaker :: "address \<Rightarrow> controller \<Rightarrow> error + controller" where
  "resetCircuitBreaker sender c =
     bind_result (onlyRole c DEFAULT_ADMIN_ROLE sender) (\<lambda>_.
       Inr (c\<lparr>circuitBreakerActive := False\<rparr>))"

definition emergencyPause :: "address \<Rightarrow> controller \<Rightarrow> error + controller" where
  "emergencyPause sender c =
     bind_result (onlyRole c DEFAULT_ADMIN_ROLE sender) (\<lambda>_.
     bind_result (whenNotPaused c) (\<lambda>_.
       Inr (c\<lparr>paused := True\<rparr>)))"

definition emergencyUnpause :: "address \<Rightarrow> controller \<Rightarrow> error + controller" where
  "emergencyUnpause sender c =
     bind_result (onlyRole c DEFAULT_ADMIN_ROLE sender) (\<lambda>_.
     bind_result (whenPaused c) (\<lambda>_.
       Inr (c\<lparr>paused := False\<rparr>)))"

text \<open>
  The state-changing calls a controller can receive, and the effect of one call on the pair of
  controller and token storage.  \<open>Call_roles\<close> stands for the role administration inherited
  from AccessControl.  The views \<^verbatim>\<open>canRebase()\<close> and \<^verbatim>\<open>previewRebase()\<close> and every price
  reading change no storage and are no steps.
\<close>

datatype controller_call =
    Call_rebase address nat "error + nat \<times> nat \<times> nat"
  | Call_resetCircuitBreaker address
  | Call_emergencyPause address
  | Call_emergencyUnpause address
  | Call_roles "role \<Rightarrow> address \<Rightarrow> bool"

fun controller_step ::
  "address \<Rightarrow> controller_call \<Rightarrow> controller \<times> token \<Rightarrow> error + controller \<times> token" where
  "controller_step this (Call_rebase sender now aggregated) (c, tok) =
     controller_rebase sender this now aggregated (c, tok)"
| "controller_step this (Call_resetCircuitBreaker sender) (c, tok) =
     bind_result (resetCircuitBreaker sender c) (\<lambda>c'. Inr (c', tok))"
| "controller_step this (Call_emergencyPause sender) (c, tok) =
     bind_result (emergencyPause sender c) (\<lambda>c'. Inr (c', tok))"
| "controller_step this (Call_emergencyUnpause sender) (c, tok) =
     bind_result (emergencyUnpause sender c) (\<lambda>c'. Inr (c', tok))"
| "controller_step this (Call_roles table) (c, tok) = Inr (c\<lparr>hasRole := table\<rparr>, tok)"

text \<open>The named return values of \<^verbatim>\<open>previewRebase()\<close>; each starts at its zero value.\<close>

record preview =
  canExecute :: bool
  currentPrice :: nat
  deviation :: nat
  projectedSupplyDelta :: int
  stabilityBand :: nat

text \<open>
  \<^verbatim>\<open>previewRebase()\<close> is a view.  \<^verbatim>\<open>try ... catch\<close> catches a failure of the external query
  only; a panic in the arithmetic of the success branch reverts the view.
\<close>

definition previewRebase ::
  "nat \<Rightarrow> controller \<Rightarrow> token \<Rightarrow> error + nat \<times> nat \<times> nat \<Rightarrow> error + preview" where
  "previewRebase now c tok aggregated =
     bind_result (canRebase now c) (\<lambda>ready.
       let p0 = \<lparr> canExecute = ready \<and> \<not> circuitBreakerActive c, currentPrice = 0,
                  deviation = 0, projectedSupplyDelta = 0, stabilityBand = 0 \<rparr> in
       case aggregated of
         Inl _ \<Rightarrow> Inr (p0\<lparr>canExecute := False\<rparr>)
       | Inr (price, _, confidence) \<Rightarrow>
           if confidence \<ge> 50 then
             let p1 = p0\<lparr>currentPrice := price\<rparr> in
             bind_result (calculateDeviation price) (\<lambda>d.
               let p2 = p1\<lparr>deviation := d\<rparr>;
                   p3 = p2\<lparr>stabilityBand := getStabilityBand (deviation p2)\<rparr> in
             bind_result (calculateSupplyDelta tok price (stabilityBand p3)) (\<lambda>delta.
               Inr (p3\<lparr>projectedSupplyDelta := delta\<rparr>)))
           else Inr p0)"


section \<open>OracleAggregator\<close>

definition PRICE_PRECISION :: nat where
  "PRICE_PRECISION = 10 ^ 18"

definition MAX_PRICE_DEVIATION :: nat where
  "MAX_PRICE_DEVIATION = 20 * 10 ^ 16"

definition MIN_ORACLES_REQUIRED :: nat where
  "MIN_ORACLES_REQUIRED = 1"

text \<open>The struct \<^verbatim>\<open>OracleConfig\<close>; its field \<^verbatim>\<open>oracle\<close> is \<open>oracleAddress\<close> here.\<close>

record OracleConfig =
  oracleAddress :: address
  weight :: nat
  heartbeat :: nat
  isActive :: bool
  decimals :: nat
  description :: string

record aggregator = access_control +
  oracles :: "string \<Rightarrow> OracleConfig"
  oracleKeys :: "string list"

text \<open>
  What the call \<^verbatim>\<open>latestRoundData()\<close> to the feed at an address does at the moment of the query.
  \<open>RoundData answer updatedAt\<close>: the feed answers, with the two values the aggregator reads.
  \<open>CallReverted\<close>: the feed itself reverts, which the \<^verbatim>\<open>catch\<close> branch absorbs.
  \<open>NoContract\<close>: the address holds no code, or the answer does not decode; the check is made
  in the caller, outside the reach of the \<^verbatim>\<open>catch\<close>, and reverts the whole query.
\<close>

datatype feed_outcome = RoundData int nat | CallReverted | NoContract

type_synonym feeds = "address \<Rightarrow> feed_outcome"






definition normalizePrice :: "nat \<Rightarrow> nat \<Rightarrow> error + nat" where
  "normalizePrice price dec =
     (if dec = 18 then Inr price
      else if dec < 18 then
        bind_result (checked_pow 10 (18 - dec)) (\<lambda>factor. checked_mul price factor)
      else
        bind_result (checked_pow 10 (dec - 18)) (\<lambda>factor. checked_div price factor))"

text \<open>The four local variables the loop of \<^verbatim>\<open>getAggregatedPrice\<close> updates.\<close>

record accumulator =
  totalWeight :: nat
  weightedSum :: nat
  oldestTimestamp :: nat
  validOracles :: nat

text \<open>
  The loop body for the keys still to visit.  A reverting feed and an inactive entry are
  skipped; a feed address without code reverts the query; the age
  \<^verbatim>\<open>block.timestamp - updatedAt\<close> is a checked subtraction, outside the reach of the \<^verbatim>\<open>catch\<close>,
  as are the sums and products.
\<close>

fun aggregate_loop ::
  "nat \<Rightarrow> (string \<Rightarrow> OracleConfig) \<Rightarrow> feeds \<Rightarrow> string list \<Rightarrow> accumulator \<Rightarrow> error + accumulator" where
  "aggregate_loop now table fd [] acc = Inr acc"
| "aggregate_loop now table fd (key # keys) acc =
     (let config = table key in
      if \<not> isActive config then aggregate_loop now table fd keys acc
      else
        case fd (oracleAddress config) of
          NoContract \<Rightarrow> Inl RevertWithoutReason
        | CallReverted \<Rightarrow> aggregate_loop now table fd keys acc
        | RoundData answer updatedAt \<Rightarrow>
            if answer > 0 \<and> updatedAt > 0 then
              bind_result (checked_sub now updatedAt) (\<lambda>age.
                if age \<le> heartbeat config then
                  bind_result (normalizePrice (to_uint256 answer) (decimals config)) (\<lambda>normalizedPrice.
                  bind_result (checked_mul normalizedPrice (weight config)) (\<lambda>weighted.
                  bind_result (checked_add (weightedSum acc) weighted) (\<lambda>ws.
                  bind_result (checked_add (totalWeight acc) (weight config)) (\<lambda>tw.
                  bind_result (checked_add (validOracles acc) 1) (\<lambda>valid.
                    aggregate_loop now table fd keys
                      \<lparr> totalWeight = tw, weightedSum = ws,
                        oldestTimestamp = (if updatedAt < oldestTimestamp acc then updatedAt
                                           else oldestTimestamp acc),
                        validOracles = valid \<rparr>)))))
                else aggregate_loop now table fd keys acc)
            else aggregate_loop now table fd keys acc)"

definition getAggregatedPrice :: "nat \<Rightarrow> aggregator \<Rightarrow> feeds \<Rightarrow> error + nat \<times> nat \<times> nat" where
  "getAggregatedPrice now a fd =
     bind_result (require (length (oracleKeys a) \<ge> MIN_ORACLES_REQUIRED) ''Insufficient oracles'') (\<lambda>_.
     bind_result (aggregate_loop now (oracles a) fd (oracleKeys a)
                    \<lparr> totalWeight = 0, weightedSum = 0, oldestTimestamp = MAX_UINT256,
                      validOracles = 0 \<rparr>) (\<lambda>acc.
     bind_result (require (validOracles acc \<ge> MIN_ORACLES_REQUIRED) ''Insufficient valid oracles'') (\<lambda>_.
     bind_result (require (totalWeight acc > 0) ''No valid oracle data'') (\<lambda>_.
     bind_result (checked_div (weightedSum acc) (totalWeight acc)) (\<lambda>price.
     bind_result (checked_mul (validOracles acc) 100) (\<lambda>scaled.
     bind_result (checked_div scaled (length (oracleKeys a))) (\<lambda>confidence.
       Inr (price, oldestTimestamp acc, confidence))))))))"

definition getOracleCount :: "aggregator \<Rightarrow> nat" where
  "getOracleCount a = length (oracleKeys a)"

definition isHealthy :: "nat \<Rightarrow> aggregator \<Rightarrow> feeds \<Rightarrow> error + bool" where
  "isHealthy now a fd =
     bind_result (getAggregatedPrice now a fd) (\<lambda>(_, _, confidence). Inr (confidence \<ge> 50))"



section \<open>Invariants, the specification's aggregate, and example states\<close>

text \<open>The ledger invariant: a positive supply within the bound, and the ratio in step with it.\<close>

definition ledger_inv :: "token \<Rightarrow> bool" where
  "ledger_inv s = (0 < totalSupply s \<and> totalSupply s \<le> MAX_SUPPLY
                   \<and> gonsPerFragment s = TOTAL_GONS div totalSupply s)"



text \<open>
  The states of the deployment the examples start from: the token and the controller are
  initialised by the administrator at address 1, the controller lives at address 2 and has
  been granted \<open>REBASER_ROLE\<close> on the token, as the deployment script does.
\<close>

definition example_token :: token where
  "example_token =
     (initialize 1)\<lparr>hasRole := (\<lambda>r a. hasRole (initialize 1) r a \<or> (r = REBASER_ROLE \<and> a = 2))\<rparr>"

definition example_controller :: controller where
  "example_controller = controller_initialize 1"
























section \<open>Properties of the ledger\<close>


lemma bind_result_simps [simp]:
  "bind_result (Inl e) f = Inl e"
  "bind_result (Inr x) f = f x"
  by (simp_all add: bind_result_def)

lemma bind_result_eq_Inr:
  "bind_result r f = Inr y \<longleftrightarrow> (\<exists>x. r = Inr x \<and> f x = Inr y)"
  by (cases r) simp_all

lemma TOTAL_GONS_ge_MAX_SUPPLY: "MAX_SUPPLY \<le> TOTAL_GONS"
  by (simp add: MAX_SUPPLY_def TOTAL_GONS_def MAX_UINT256_def INITIAL_FRAGMENTS_SUPPLY_def)

lemma MAX_SUPPLY_le_MAX_UINT256: "2 * MAX_SUPPLY \<le> MAX_UINT256"
  by (simp add: MAX_SUPPLY_def MAX_UINT256_def)

lemma to_uint256_nonneg: "0 \<le> i \<Longrightarrow> i \<le> MAX_INT256 \<Longrightarrow> to_uint256 i = nat i"
  by (simp add: to_uint256_def MAX_INT256_def)

lemma rebase_zero:
  "rebase sender 0 s =
     (if \<not> hasRole s REBASER_ROLE sender then Inl MissingRole
      else if paused s then Inl (Revert ''Pausable: paused'')
      else if token.rebaseCount s + 1 > MAX_UINT256 then Inl Panic_Overflow
      else Inr (totalSupply s, s\<lparr>token.rebaseCount := token.rebaseCount s + 1\<rparr>))"
  by (simp add: rebase_def onlyRole_def whenNotPaused_def require_def checked_add_def)

lemma rebase_negative:
  assumes "hasRole s REBASER_ROLE sender" "\<not> paused s" "token.rebaseCount s < MAX_UINT256"
    and "supplyDelta < 0" "is_int256 supplyDelta"
  shows "rebase sender supplyDelta s =
     (if supplyDelta = MIN_INT256 then Inl Panic_Overflow
      else if int (totalSupply s) \<le> - supplyDelta then
        Inl Panic_DivisionByZero
      else if nat (int (totalSupply s) + supplyDelta) > MAX_SUPPLY then Inl (Revert ''Max supply exceeded'')
      else Inr (nat (int (totalSupply s) + supplyDelta),
                s\<lparr>token.rebaseCount := token.rebaseCount s + 1,
                  totalSupply := nat (int (totalSupply s) + supplyDelta),
                  gonsPerFragment := TOTAL_GONS div nat (int (totalSupply s) + supplyDelta)\<rparr>))"
proof (cases "supplyDelta = MIN_INT256")
  case True
  then show ?thesis
    using assms by (simp add: rebase_def onlyRole_def whenNotPaused_def require_def checked_add_def
        checked_neg_def Let_def)
next
  case False
  have u: "to_uint256 (- supplyDelta) = nat (- supplyDelta)"
    using assms(4,5) False
    by (intro to_uint256_nonneg) (auto simp: is_int256_def MIN_INT256_def MAX_INT256_def)
  have key: "nat (int (totalSupply s) + supplyDelta) = totalSupply s - nat (- supplyDelta)"
    using assms(4) by arith
  have le: "int (totalSupply s) \<le> - supplyDelta \<longleftrightarrow> \<not> nat (- supplyDelta) < totalSupply s"
    using assms(4) by arith
  show ?thesis
    unfolding key le using assms(1,2,3,4) False
    by (simp add: rebase_def onlyRole_def whenNotPaused_def require_def checked_add_def
        checked_neg_def checked_div_def Let_def u)
qed


lemma rebase_positive:
  assumes "hasRole s REBASER_ROLE sender" "\<not> paused s" "token.rebaseCount s < MAX_UINT256"
    and "0 < supplyDelta" "is_int256 supplyDelta"
  shows "rebase sender supplyDelta s =
     (if totalSupply s + nat supplyDelta > MAX_UINT256 then Inl Panic_Overflow
      else if totalSupply s + nat supplyDelta > MAX_SUPPLY then Inl (Revert ''Max supply exceeded'')
      else Inr (totalSupply s + nat supplyDelta,
                s\<lparr>token.rebaseCount := token.rebaseCount s + 1,
                  totalSupply := totalSupply s + nat supplyDelta,
                  gonsPerFragment := TOTAL_GONS div (totalSupply s + nat supplyDelta)\<rparr>))"
proof -
  have u: "to_uint256 supplyDelta = nat supplyDelta"
    using assms(4,5) by (intro to_uint256_nonneg) (auto simp: is_int256_def)
  have pos: "0 < nat supplyDelta" using assms(4) by simp
  show ?thesis
    using assms(1,2,3,4) pos
    by (simp add: rebase_def onlyRole_def whenNotPaused_def require_def checked_add_def
        checked_div_def Let_def u)
qed

text \<open>
  Claim C1, as the code has it.  In a ledger state with a positive supply within the bound and
  \<open>gonsPerFragment = TOTAL_GONS div totalSupply\<close>, an authorised \<^verbatim>\<open>rebase(supplyDelta)\<close> on an
  unpaused token computes \<open>newSupply = totalSupply + supplyDelta\<close>.  Above \<open>MAX_SUPPLY\<close> it
  reverts with "Max supply exceeded".  At or below zero it also fails, not on the bound but on a
  panic: the supply is clamped to 0 and the division \<open>TOTAL_GONS / 0\<close> panics (the negation of
  the least \<^verbatim>\<open>int256\<close> overflows before that).  A failed call leaves the storage as it was.
  Otherwise the call stores \<open>totalSupply = newSupply\<close> and
  \<open>gonsPerFragment = TOTAL_GONS div newSupply\<close> and advances the token's epoch counter.
\<close>

theorem rebase_supply_bounds:
  assumes "hasRole s REBASER_ROLE sender" and "\<not> paused s"
    and "token.rebaseCount s < MAX_UINT256"
    and "is_int256 supplyDelta"
    and "0 < totalSupply s" and "totalSupply s \<le> MAX_SUPPLY"
    and "gonsPerFragment s = TOTAL_GONS div totalSupply s"
  shows "rebase sender supplyDelta s =
     (let newSupply = int (totalSupply s) + supplyDelta in
      if int MAX_SUPPLY < newSupply then Inl (Revert ''Max supply exceeded'')
      else if newSupply \<le> 0 then
        Inl (if supplyDelta = MIN_INT256 then Panic_Overflow else Panic_DivisionByZero)
      else Inr (nat newSupply,
                s\<lparr>token.rebaseCount := token.rebaseCount s + 1,
                  totalSupply := nat newSupply,
                  gonsPerFragment := TOTAL_GONS div nat newSupply\<rparr>))"
proof -
  consider (neg) "supplyDelta < 0" | (zero) "supplyDelta = 0" | (pos) "0 < supplyDelta"
    by linarith
  then show ?thesis
  proof cases
    case neg
    have small: "\<not> int MAX_SUPPLY < int (totalSupply s) + supplyDelta"
      using neg assms(6) by linarith
    have small': "\<not> MAX_SUPPLY < nat (int (totalSupply s) + supplyDelta)"
      using neg assms(6) by linarith
    have le: "int (totalSupply s) + supplyDelta \<le> 0 \<longleftrightarrow> int (totalSupply s) \<le> - supplyDelta"
      by linarith
    have m: "supplyDelta = MIN_INT256 \<Longrightarrow> int (totalSupply s) \<le> - supplyDelta"
      using assms(6) by (simp add: MIN_INT256_def MAX_SUPPLY_def)
    show ?thesis
      using m by (simp add: rebase_negative [OF assms(1,2,3) neg assms(4)] Let_def small small' le)
  next
    case zero
    have "s\<lparr>token.rebaseCount := Suc (token.rebaseCount s)\<rparr> =
          s\<lparr>token.rebaseCount := Suc (token.rebaseCount s), totalSupply := totalSupply s,
            gonsPerFragment := TOTAL_GONS div totalSupply s\<rparr>"
      using assms(7) by simp
    then show ?thesis
      using assms zero by (simp add: rebase_zero Let_def MIN_INT256_def)
  next
    case pos
    have fits: "\<not> int MAX_SUPPLY < int (totalSupply s) + supplyDelta
                 \<Longrightarrow> \<not> MAX_UINT256 < totalSupply s + nat supplyDelta"
      using MAX_SUPPLY_le_MAX_UINT256 pos by linarith
    have over: "int MAX_SUPPLY < int (totalSupply s) + supplyDelta
                 \<longleftrightarrow> MAX_SUPPLY < totalSupply s + nat supplyDelta"
      using pos by linarith
    have big: "MAX_UINT256 < totalSupply s + nat supplyDelta \<Longrightarrow> False"
      using assms(4,6) pos
      unfolding is_int256_def MAX_INT256_def MAX_SUPPLY_def MAX_UINT256_def by simp linarith
    have npos: "\<not> int (totalSupply s) + supplyDelta \<le> 0" using pos by linarith
    have n: "nat (int (totalSupply s) + supplyDelta) = totalSupply s + nat supplyDelta"
      using pos by linarith
    show ?thesis
      using big by (auto simp: rebase_positive [OF assms(1,2,3) pos assms(4)] Let_def over npos n)
  qed
qed

text \<open>
  Claim C5.  A rebase that the ledger accepts leaves the gon balance of every holder as it
  was: the new storage is the old one with \<open>totalSupply\<close>, \<open>gonsPerFragment\<close> and the token's
  epoch counter replaced, and nothing else.
\<close>

theorem rebase_frame:
  assumes "rebase sender supplyDelta s = Inr (r, s')"
  shows "(\<forall>holder. gonBalances s' holder = gonBalances s holder)
       \<and> s' = s\<lparr>token.rebaseCount := token.rebaseCount s', totalSupply := totalSupply s',
                 gonsPerFragment := gonsPerFragment s'\<rparr>"
  using assms
  by (auto simp: rebase_def bind_result_eq_Inr Let_def onlyRole_def whenNotPaused_def require_def
      checked_add_def checked_div_def checked_neg_def split: if_splits)


lemma rebase_nonzero_result:
  assumes "rebase sender supplyDelta s = Inr (r, s')" and "supplyDelta \<noteq> 0"
  shows "0 < totalSupply s' \<and> totalSupply s' \<le> MAX_SUPPLY
         \<and> gonsPerFragment s' = TOTAL_GONS div totalSupply s' \<and> r = totalSupply s'"
  using assms
  by (auto simp: rebase_def bind_result_eq_Inr Let_def onlyRole_def whenNotPaused_def require_def
      checked_add_def checked_div_def checked_neg_def split: if_splits)

lemma rebase_zero_result:
  assumes "rebase sender 0 s = Inr (r, s')"
  shows "s' = s\<lparr>token.rebaseCount := token.rebaseCount s + 1\<rparr> \<and> r = totalSupply s"
  using assms by (auto simp: rebase_zero split: if_splits)

lemma rebase_ledger_inv:
  assumes "ledger_inv s" and "rebase sender supplyDelta s = Inr (r, s')"
  shows "ledger_inv s'"
proof (cases "supplyDelta = 0")
  case True
  with assms show ?thesis by (auto simp: ledger_inv_def dest!: rebase_zero_result)
next
  case False
  with assms(2) show ?thesis by (auto simp: ledger_inv_def dest!: rebase_nonzero_result)
qed

lemma transfer_supply:
  "transfer sender to amount s = Inr s' \<Longrightarrow>
     totalSupply s' = totalSupply s \<and> gonsPerFragment s' = gonsPerFragment s"
  by (auto simp: transfer_def bind_result_eq_Inr Let_def)

lemma transferFrom_supply:
  "transferFrom sender from to amount s = Inr s' \<Longrightarrow>
     totalSupply s' = totalSupply s \<and> gonsPerFragment s' = gonsPerFragment s"
  by (auto simp: transferFrom_def bind_result_eq_Inr Let_def split: if_splits)

lemma pause_supply:
  "pause sender s = Inr s' \<Longrightarrow>
     totalSupply s' = totalSupply s \<and> gonsPerFragment s' = gonsPerFragment s"
  by (auto simp: pause_def bind_result_eq_Inr)

lemma unpause_supply:
  "unpause sender s = Inr s' \<Longrightarrow>
     totalSupply s' = totalSupply s \<and> gonsPerFragment s' = gonsPerFragment s"
  by (auto simp: unpause_def bind_result_eq_Inr)

lemma initialize_ledger_inv: "ledger_inv (initialize admin)"
  by (simp add: ledger_inv_def initialize_def INITIAL_FRAGMENTS_SUPPLY_def MAX_SUPPLY_def)

lemma token_reachable_ledger_inv: "token_reachable s \<Longrightarrow> ledger_inv s"
proof (induction rule: token_reachable.induct)
  case (reach_initialize admin)
  show ?case by (rule initialize_ledger_inv)
next
  case (reach_rebase s sender supplyDelta r s')
  then show ?case by (blast intro: rebase_ledger_inv)
next
  case (reach_transfer s sender to amount s')
  then show ?case by (auto simp: ledger_inv_def dest!: transfer_supply)
next
  case (reach_transferFrom s sender "from" to amount s')
  then show ?case by (auto simp: ledger_inv_def dest!: transferFrom_supply)
next
  case (reach_approve s sender spender amount)
  then show ?case by (simp add: ledger_inv_def approve_def)
next
  case (reach_pause s sender s')
  then show ?case by (auto simp: ledger_inv_def dest!: pause_supply)
next
  case (reach_unpause s sender s')
  then show ?case by (auto simp: ledger_inv_def dest!: unpause_supply)
next
  case (reach_roles s table)
  then show ?case by (simp add: ledger_inv_def)
qed

lemma ledger_inv_gonsPerFragment_pos:
  assumes "ledger_inv s"
  shows "0 < gonsPerFragment s"
proof -
  have "totalSupply s \<le> TOTAL_GONS"
    using assms TOTAL_GONS_ge_MAX_SUPPLY by (simp add: ledger_inv_def)
  moreover have "0 < totalSupply s" using assms by (simp add: ledger_inv_def)
  ultimately have "0 < TOTAL_GONS div totalSupply s"
    by (simp add: div_greater_zero_iff)
  then show ?thesis using assms by (simp add: ledger_inv_def)
qed

text \<open>
  Claim C10.  No reachable ledger state has a zero supply or a zero \<open>gonsPerFragment\<close>; a
  successful rebase from a positive supply ends in a positive supply; and an authorised
  contraction by at least the whole supply fails: the supply is clamped to 0 and the division
  \<open>TOTAL_GONS / 0\<close> panics (for the least \<^verbatim>\<open>int256\<close> the negation panics first), so the
  storage stays as it was.
\<close>

theorem rebase_never_reaches_zero_supply:
  "(token_reachable s0 \<longrightarrow> 0 < totalSupply s0 \<and> 0 < gonsPerFragment s0)
   \<and> (0 < totalSupply s \<and> rebase sender supplyDelta s = Inr (r, s') \<longrightarrow> 0 < totalSupply s')
   \<and> (hasRole s1 REBASER_ROLE sender1 \<and> \<not> paused s1 \<and> token.rebaseCount s1 < MAX_UINT256
        \<and> is_int256 d \<and> d < 0 \<and> int (totalSupply s1) \<le> - d
      \<longrightarrow> rebase sender1 d s1
            = Inl (if d = MIN_INT256 then Panic_Overflow else Panic_DivisionByZero))"
proof (intro conjI impI)
  assume "token_reachable s0"
  then have inv: "ledger_inv s0" by (rule token_reachable_ledger_inv)
  then show "0 < totalSupply s0" by (simp add: ledger_inv_def)
  from inv show "0 < gonsPerFragment s0" by (rule ledger_inv_gonsPerFragment_pos)
next
  assume a: "0 < totalSupply s \<and> rebase sender supplyDelta s = Inr (r, s')"
  show "0 < totalSupply s'"
  proof (cases "supplyDelta = 0")
    case True
    with a show ?thesis by (auto dest!: rebase_zero_result)
  next
    case False
    with a show ?thesis by (auto dest!: rebase_nonzero_result)
  qed
next
  assume a: "hasRole s1 REBASER_ROLE sender1 \<and> \<not> paused s1 \<and> token.rebaseCount s1 < MAX_UINT256
        \<and> is_int256 d \<and> d < 0 \<and> int (totalSupply s1) \<le> - d"
  then have "rebase sender1 d s1 =
     (if d = MIN_INT256 then Inl Panic_Overflow
      else if int (totalSupply s1) \<le> - d then Inl Panic_DivisionByZero
      else if nat (int (totalSupply s1) + d) > MAX_SUPPLY then Inl (Revert ''Max supply exceeded'')
      else Inr (nat (int (totalSupply s1) + d),
                s1\<lparr>token.rebaseCount := token.rebaseCount s1 + 1,
                  totalSupply := nat (int (totalSupply s1) + d),
                  gonsPerFragment := TOTAL_GONS div nat (int (totalSupply s1) + d)\<rparr>))"
    by (intro rebase_negative) simp_all
  with a show "rebase sender1 d s1
            = Inl (if d = MIN_INT256 then Panic_Overflow else Panic_DivisionByZero)"
    by simp
qed

lemma initialize_simps:
  "hasRole (initialize admin) r a = (a = admin \<and> (r = DEFAULT_ADMIN_ROLE \<or> r = REBASER_ROLE \<or> r = PAUSER_ROLE))"
  "paused (initialize admin) = False"
  "totalSupply (initialize admin) = 1000000000000000000000000"
  "token.rebaseCount (initialize admin) = 0"
  by (simp_all add: initialize_def INITIAL_FRAGMENTS_SUPPLY_def)

text \<open>
  The claim C1 as stated fails for a delta that takes the supply to exactly 0: the new supply
  lies in \<open>[0, MAX_SUPPLY]\<close>, yet the call panics on the division instead of storing it.
\<close>

theorem rebase_supply_bounds_counterexample:
  "0 \<le> int (totalSupply (initialize 1)) + (- 1000000000000000000000000)
   \<and> int (totalSupply (initialize 1)) + (- 1000000000000000000000000) \<le> int MAX_SUPPLY
   \<and> rebase 1 (- 1000000000000000000000000) (initialize 1) = Inl Panic_DivisionByZero"
proof -
  have "rebase 1 (- 1000000000000000000000000) (initialize 1) = Inl Panic_DivisionByZero"
    by (subst rebase_negative)
       (simp_all add: initialize_simps MAX_UINT256_def is_int256_def MIN_INT256_def MAX_INT256_def)
  then show ?thesis by (simp add: initialize_simps MAX_SUPPLY_def)
qed


lemma initialize_rebase_expand:
  "rebase 1 2000000000000000000000 (initialize 1) =
     Inr (1002000000000000000000000,
          (initialize 1)\<lparr>token.rebaseCount := 1, totalSupply := 1002000000000000000000000,
            gonsPerFragment := TOTAL_GONS div 1002000000000000000000000\<rparr>)"
  by (subst rebase_positive)
     (simp_all add: initialize_simps MAX_UINT256_def is_int256_def MIN_INT256_def MAX_INT256_def
        MAX_SUPPLY_def)

text \<open>The theorem for C1 at the initial ledger and an expansion by 2,000 units.\<close>

theorem rebase_supply_bounds_witness:
  "hasRole (initialize 1) REBASER_ROLE 1 \<and> \<not> paused (initialize 1)
   \<and> token.rebaseCount (initialize 1) < MAX_UINT256
   \<and> is_int256 2000000000000000000000
   \<and> 0 < totalSupply (initialize 1) \<and> totalSupply (initialize 1) \<le> MAX_SUPPLY
   \<and> gonsPerFragment (initialize 1) = TOTAL_GONS div totalSupply (initialize 1)
   \<and> rebase 1 2000000000000000000000 (initialize 1) =
       Inr (1002000000000000000000000,
            (initialize 1)\<lparr>token.rebaseCount := 1, totalSupply := 1002000000000000000000000,
              gonsPerFragment := TOTAL_GONS div 1002000000000000000000000\<rparr>)"
proof -
  have h1: "hasRole (initialize 1) REBASER_ROLE 1" by (simp add: initialize_simps)
  have h2: "\<not> paused (initialize 1)" by (simp add: initialize_simps)
  have h3: "token.rebaseCount (initialize 1) < MAX_UINT256"
    by (simp add: initialize_simps MAX_UINT256_def)
  have h4: "is_int256 2000000000000000000000"
    by (simp add: is_int256_def MIN_INT256_def MAX_INT256_def)
  have h5: "0 < totalSupply (initialize 1)" by (simp add: initialize_simps)
  have h6: "totalSupply (initialize 1) \<le> MAX_SUPPLY"
    by (simp add: initialize_simps MAX_SUPPLY_def)
  have h7: "gonsPerFragment (initialize 1) = TOTAL_GONS div totalSupply (initialize 1)"
    by (simp add: initialize_def)
  have "rebase 1 2000000000000000000000 (initialize 1) =
       Inr (1002000000000000000000000,
            (initialize 1)\<lparr>token.rebaseCount := 1, totalSupply := 1002000000000000000000000,
              gonsPerFragment := TOTAL_GONS div 1002000000000000000000000\<rparr>)"
    using rebase_supply_bounds [OF h1 h2 h3 h4 h5 h6 h7]
    by (simp add: Let_def initialize_simps MAX_SUPPLY_def)
  with h1 h2 h3 h4 h5 h6 h7 show ?thesis by blast
qed

text \<open>The theorem for C5 at the initial ledger: the admin still holds all gons.\<close>

theorem rebase_frame_witness:
  "rebase 1 2000000000000000000000 (initialize 1) =
     Inr (1002000000000000000000000,
          (initialize 1)\<lparr>token.rebaseCount := 1, totalSupply := 1002000000000000000000000,
            gonsPerFragment := TOTAL_GONS div 1002000000000000000000000\<rparr>)
   \<and> gonBalances ((initialize 1)\<lparr>token.rebaseCount := 1, totalSupply := 1002000000000000000000000,
            gonsPerFragment := TOTAL_GONS div 1002000000000000000000000\<rparr>) 1
      = gonBalances (initialize 1) 1
   \<and> gonBalances (initialize 1) 1 = TOTAL_GONS"
proof -
  note h = initialize_rebase_expand
  from rebase_frame [OF h] have "gonBalances ((initialize 1)\<lparr>token.rebaseCount := 1, totalSupply := 1002000000000000000000000,
            gonsPerFragment := TOTAL_GONS div 1002000000000000000000000\<rparr>) 1
      = gonBalances (initialize 1) 1" by blast
  moreover have "gonBalances (initialize 1) 1 = TOTAL_GONS" by (simp add: initialize_def)
  ultimately show ?thesis using h by blast
qed

text \<open>The theorem for C10 at the initial ledger: an expansion succeeds, a contraction by the
  whole supply panics.\<close>

theorem rebase_never_reaches_zero_supply_witness:
  "token_reachable (initialize 1)
   \<and> 0 < totalSupply (initialize 1) \<and> 0 < gonsPerFragment (initialize 1)
   \<and> rebase 1 2000000000000000000000 (initialize 1) =
       Inr (1002000000000000000000000,
            (initialize 1)\<lparr>token.rebaseCount := 1, totalSupply := 1002000000000000000000000,
              gonsPerFragment := TOTAL_GONS div 1002000000000000000000000\<rparr>)
   \<and> 0 < totalSupply ((initialize 1)\<lparr>token.rebaseCount := 1, totalSupply := 1002000000000000000000000,
              gonsPerFragment := TOTAL_GONS div 1002000000000000000000000\<rparr>)
   \<and> hasRole (initialize 1) REBASER_ROLE 1 \<and> \<not> paused (initialize 1)
   \<and> token.rebaseCount (initialize 1) < MAX_UINT256
   \<and> is_int256 (- 1000000000000000000000000) \<and> (- 1000000000000000000000000 :: int) < 0
   \<and> int (totalSupply (initialize 1)) \<le> - (- 1000000000000000000000000)
   \<and> rebase 1 (- 1000000000000000000000000) (initialize 1) = Inl Panic_DivisionByZero"
proof -
  have r: "token_reachable (initialize 1)" by (rule reach_initialize)
  have p: "0 < totalSupply (initialize 1)" by (simp add: initialize_simps)
  note e = initialize_rebase_expand
  have f: "hasRole (initialize 1) REBASER_ROLE 1 \<and> \<not> paused (initialize 1)
     \<and> token.rebaseCount (initialize 1) < MAX_UINT256
     \<and> is_int256 (- 1000000000000000000000000) \<and> (- 1000000000000000000000000 :: int) < 0
     \<and> int (totalSupply (initialize 1)) \<le> - (- 1000000000000000000000000)"
    by (simp add: initialize_simps MAX_UINT256_def is_int256_def MIN_INT256_def MAX_INT256_def)
  have m: "(- 1000000000000000000000000 :: int) \<noteq> MIN_INT256" by (simp add: MIN_INT256_def)
  from rebase_never_reaches_zero_supply
    [of "initialize 1" "initialize 1" 1 2000000000000000000000 1002000000000000000000000
        "(initialize 1)\<lparr>token.rebaseCount := 1, totalSupply := 1002000000000000000000000,
              gonsPerFragment := TOTAL_GONS div 1002000000000000000000000\<rparr>"
        "initialize 1" 1 "- 1000000000000000000000000"]
    r p e f m
  show ?thesis by simp
qed



section \<open>Properties of the controller\<close>


lemmas checked_defs = checked_add_def checked_sub_def checked_mul_def checked_div_def
  checked_neg_def checked_pow_def require_def onlyRole_def whenNotPaused_def whenPaused_def

lemmas band_defs = BAND_1_THRESHOLD_def BAND_2_THRESHOLD_def BAND_3_THRESHOLD_def
  BAND_4_THRESHOLD_def BAND_1_DAMPING_def BAND_2_DAMPING_def BAND_3_DAMPING_def
  BAND_4_DAMPING_def

text \<open>
  Claim C6.  On the scale \<open>1e18 = 100%\<close>, deviations of exactly 1%, 5%, 10% and 20% are in
  bands 1, 2, 3 and 4: a boundary value belongs to the higher band.  A deviation of 0.99%, and
  every deviation strictly below 1%, is in band 0.  Prices of 1.01 and of 0.99 deviate by
  exactly 1%, a price of 1.0099 by 0.99%.
\<close>

theorem stability_band_boundaries:
  "getStabilityBand (1 * 10 ^ 16) = 1
   \<and> getStabilityBand (5 * 10 ^ 16) = 2
   \<and> getStabilityBand (10 * 10 ^ 16) = 3
   \<and> getStabilityBand (20 * 10 ^ 16) = 4
   \<and> getStabilityBand (99 * 10 ^ 14) = 0
   \<and> (dev < 1 * 10 ^ 16 \<longrightarrow> getStabilityBand dev = 0)
   \<and> calculateDeviation (101 * 10 ^ 16) = Inr (1 * 10 ^ 16)
   \<and> calculateDeviation (99 * 10 ^ 16) = Inr (1 * 10 ^ 16)
   \<and> calculateDeviation (10099 * 10 ^ 14) = Inr (99 * 10 ^ 14)"
  by (simp add: getStabilityBand_def band_defs calculateDeviation_def TARGET_PRICE_def
      checked_defs MAX_UINT256_def)

text \<open>The theorem for C6 at a deviation of 0.5%.\<close>

theorem stability_band_boundaries_witness:
  "(5 * 10 ^ 15 :: nat) < 1 * 10 ^ 16 \<and> getStabilityBand (5 * 10 ^ 15) = 0"
  using stability_band_boundaries [of "5 * 10 ^ 15"] by simp

lemma canRebase_eq:
  "canRebase now c =
     (if lastRebaseTime c + REBASE_COOLDOWN \<le> MAX_UINT256
      then Inr (lastRebaseTime c + REBASE_COOLDOWN \<le> now) else Inl Panic_Overflow)"
  by (simp add: canRebase_def checked_add_def)

text \<open>
  Claim C4, as the code has it.  \<^verbatim>\<open>canRebase()\<close> is true if and only if
  \<open>now \<ge> lastRebaseTime + REBASE_COOLDOWN\<close>; it does not look at the circuit breaker, which
  \<^verbatim>\<open>rebase()\<close> and \<^verbatim>\<open>previewRebase()\<close> test on their own.
\<close>

theorem canRebase_cooldown_only:
  assumes "lastRebaseTime c + REBASE_COOLDOWN \<le> MAX_UINT256"
  shows "canRebase now c = Inr (now \<ge> lastRebaseTime c + REBASE_COOLDOWN)
         \<and> canRebase now (c\<lparr>circuitBreakerActive := b\<rparr>) = canRebase now c"
  using assms by (simp add: canRebase_eq)

lemma example_controller_simps:
  "hasRole example_controller r a = (a = 1 \<and> (r = DEFAULT_ADMIN_ROLE \<or> r = OPERATOR_ROLE))"
  "paused example_controller = False"
  "lastRebaseTime example_controller = 0"
  "rebaseCount example_controller = 0"
  "circuitBreakerActive example_controller = False"
  by (simp_all add: example_controller_def controller_initialize_def)

text \<open>
  The claim C4 as stated fails with the circuit breaker active and the cooldown elapsed: the
  state is not Normal, yet \<^verbatim>\<open>canRebase()\<close> answers true.
\<close>

theorem canRebase_cooldown_only_counterexample:
  "circuitBreakerActive (example_controller\<lparr>circuitBreakerActive := True\<rparr>)
   \<and> canRebase 43200 (example_controller\<lparr>circuitBreakerActive := True\<rparr>) = Inr True"
  by (simp add: canRebase_eq example_controller_simps REBASE_COOLDOWN_def MAX_UINT256_def)

text \<open>The theorem for C4 at the initial controller, one second before and at the end of the
  cooldown.\<close>

theorem canRebase_cooldown_only_witness:
  "lastRebaseTime example_controller + REBASE_COOLDOWN \<le> MAX_UINT256
   \<and> canRebase 43199 example_controller = Inr False
   \<and> canRebase 43200 example_controller = Inr True
   \<and> canRebase 43200 (example_controller\<lparr>circuitBreakerActive := True\<rparr>) = Inr True"
proof -
  have h: "lastRebaseTime example_controller + REBASE_COOLDOWN \<le> MAX_UINT256"
    by (simp add: example_controller_simps REBASE_COOLDOWN_def MAX_UINT256_def)
  from canRebase_cooldown_only [OF h, of 43199 True] canRebase_cooldown_only [OF h, of 43200 True] h
  show ?thesis by (simp add: example_controller_simps REBASE_COOLDOWN_def)
qed


lemma require_eq_Inr [simp]: "require b msg = Inr u \<longleftrightarrow> b"
  by (simp add: require_def)

lemma onlyRole_eq_Inr [simp]: "onlyRole s r a = Inr u \<longleftrightarrow> hasRole s r a"
  by (simp add: onlyRole_def)

lemma whenNotPaused_eq_Inr [simp]: "whenNotPaused s = Inr u \<longleftrightarrow> \<not> paused s"
  by (simp add: whenNotPaused_def)

lemma whenPaused_eq_Inr [simp]: "whenPaused s = Inr u \<longleftrightarrow> paused s"
  by (simp add: whenPaused_def)

lemma controller_rebase_expand:
  "controller_rebase sender this now aggregated (c, tok) =
     (if \<not> hasRole c OPERATOR_ROLE sender then Inl MissingRole
      else if paused c then Inl (Revert ''Pausable: paused'')
      else if circuitBreakerActive c then Inl (Revert ''Circuit breaker active'')
      else case canRebase now c of Inl e \<Rightarrow> Inl e | Inr ready \<Rightarrow>
        if \<not> ready then Inl (Revert ''Rebase conditions not met'')
        else case aggregated of Inl e \<Rightarrow> Inl e | Inr (price, timestamp, confidence) \<Rightarrow>
          if confidence < 50 then Inl (Revert ''Insufficient oracle confidence'')
          else case calculateDeviation price of Inl e \<Rightarrow> Inl e | Inr dev \<Rightarrow>
            if BAND_4_THRESHOLD \<le> dev then Inr (c\<lparr>circuitBreakerActive := True\<rparr>, tok)
            else case calculateSupplyDelta tok price (getStabilityBand dev) of
              Inl e \<Rightarrow> Inl e
            | Inr delta \<Rightarrow>
                if delta = 0 then Inr (c, tok)
                else case rebase this delta tok of Inl e \<Rightarrow> Inl e | Inr (newSupply, tok') \<Rightarrow>
                  if MAX_UINT256 < rebaseCount c + 1 then Inl Panic_Overflow
                  else Inr (c\<lparr>rebaseCount := rebaseCount c + 1, lastRebaseTime := now,
                              rebaseHistory := (rebaseHistory c)(rebaseCount c + 1 :=
                                \<lparr> rd_timestamp = timestamp, rd_price = price,
                                  rd_supplyDelta = delta, rd_newSupply = newSupply,
                                  rd_stabilityBand = getStabilityBand dev \<rparr>)\<rparr>, tok'))"
  by (simp add: controller_rebase_def bind_result_def checked_defs Let_def
      split: sum.splits prod.splits)


lemma example_token_simps:
  "hasRole example_token r a =
     (a = 1 \<and> (r = DEFAULT_ADMIN_ROLE \<or> r = REBASER_ROLE \<or> r = PAUSER_ROLE) \<or> r = REBASER_ROLE \<and> a = 2)"
  "paused example_token = False"
  "totalSupply example_token = 1000000000000000000000000"
  "token.rebaseCount example_token = 0"
  by (auto simp: example_token_def initialize_def INITIAL_FRAGMENTS_SUPPLY_def)

lemma calculateDeviation_eq:
  "calculateDeviation price =
     (if TARGET_PRICE \<le> price then
        (if (price - TARGET_PRICE) * 10 ^ 18 \<le> MAX_UINT256
         then Inr ((price - TARGET_PRICE) * 10 ^ 18 div TARGET_PRICE) else Inl Panic_Overflow)
      else Inr ((TARGET_PRICE - price) * 10 ^ 18 div TARGET_PRICE))"
proof -
  have "price < TARGET_PRICE \<Longrightarrow> (TARGET_PRICE - price) * 10 ^ 18 \<le> MAX_UINT256"
  proof -
    assume "price < TARGET_PRICE"
    have "(TARGET_PRICE - price) * 10 ^ 18 \<le> TARGET_PRICE * 10 ^ 18"
      by (rule mult_le_mono1) simp
    also have "\<dots> \<le> MAX_UINT256" by (simp add: TARGET_PRICE_def MAX_UINT256_def)
    finally show ?thesis .
  qed
  then show ?thesis
    by (simp add: calculateDeviation_def checked_defs TARGET_PRICE_def)
qed

text \<open>
  Claim C3, as the code has it.  A successful controller \<^verbatim>\<open>rebase()\<close> with a deviation below
  the top band updates \<open>lastRebaseTime\<close> and \<open>rebaseCount\<close> exactly when the computed delta is
  not zero, together with the ledger's rebase.  With a delta of zero the whole state, the
  controller's bookkeeping and the ledger's balances and \<open>gonsPerFragment\<close>, stays as it was.
\<close>

theorem controller_rebase_bookkeeping:
  assumes "controller_rebase sender this now (Inr (price, timestamp, confidence)) (c, tok)
             = Inr (c', tok')"
    and "calculateDeviation price = Inr dev" and "dev < BAND_4_THRESHOLD"
    and "calculateSupplyDelta tok price (getStabilityBand dev) = Inr delta"
  shows "if delta = 0 then c' = c \<and> tok' = tok
         else lastRebaseTime c' = now \<and> rebaseCount c' = rebaseCount c + 1
              \<and> rebase this delta tok = Inr (totalSupply tok', tok')"
proof (cases "delta = 0")
  case True
  with assms show ?thesis
    by (auto simp: controller_rebase_expand split: if_splits sum.splits)
next
  case False
  with assms obtain newSupply where r: "rebase this delta tok = Inr (newSupply, tok')"
    and c': "lastRebaseTime c' = now \<and> rebaseCount c' = rebaseCount c + 1"
    by (auto simp: controller_rebase_expand split: if_splits sum.splits prod.splits)
  from rebase_nonzero_result [OF r False] have "newSupply = totalSupply tok'" by simp
  with r c' False show ?thesis by simp
qed

text \<open>
  The claim C3 as stated fails in the dead zone: at a price of 1.005 (deviation 0.5%, band 0),
  full confidence and an elapsed cooldown, \<^verbatim>\<open>rebase()\<close> succeeds and \<open>lastRebaseTime\<close> and
  \<open>rebaseCount\<close> are still 0.
\<close>

theorem controller_rebase_bookkeeping_counterexample:
  "controller_rebase 1 2 43200 (Inr (1005000000000000000, 43200, 100)) (example_controller, example_token)
     = Inr (example_controller, example_token)
   \<and> canRebase 43200 example_controller = Inr True
   \<and> calculateDeviation 1005000000000000000 = Inr 5000000000000000
   \<and> getStabilityBand 5000000000000000 = 0
   \<and> lastRebaseTime example_controller = 0 \<and> rebaseCount example_controller = 0"
  by (simp add: controller_rebase_expand example_controller_simps canRebase_eq REBASE_COOLDOWN_def
      MAX_UINT256_def calculateDeviation_eq TARGET_PRICE_def band_defs getStabilityBand_def
      calculateSupplyDelta_def Let_def getDampingFactor_def rawAdjustment_def dampedAdjustment_def
      maxAdjustment_def checked_defs example_token_simps MAX_REBASE_PERCENTAGE_def to_int256_def)


lemmas delta_defs = calculateSupplyDelta_def Let_def getDampingFactor_def rawAdjustment_def
  dampedAdjustment_def maxAdjustment_def MAX_REBASE_PERCENTAGE_def to_int256_def

lemma example_token_rebase:
  "rebase 2 (2000 * 10 ^ 18) example_token =
     Inr (1002000 * 10 ^ 18,
          example_token\<lparr>token.rebaseCount := 1, totalSupply := 1002000 * 10 ^ 18,
            gonsPerFragment := TOTAL_GONS div (1002000 * 10 ^ 18)\<rparr>)"
  by (subst rebase_positive)
     (simp_all add: example_token_simps MAX_UINT256_def is_int256_def MIN_INT256_def MAX_INT256_def
        MAX_SUPPLY_def)

lemma example_supply_delta:
  "calculateSupplyDelta example_token (102 * 10 ^ 16) 1 = Inr (2000 * 10 ^ 18)"
  by (simp add: delta_defs calculateDeviation_eq TARGET_PRICE_def band_defs checked_defs
      MAX_UINT256_def example_token_simps)

lemma example_controller_rebase:
  "controller_rebase 1 2 43200 (Inr (102 * 10 ^ 16, 43200, 100)) (example_controller, example_token)
     = Inr (example_controller\<lparr>rebaseCount := 1, lastRebaseTime := 43200,
              rebaseHistory := (rebaseHistory example_controller)(1 :=
                \<lparr> rd_timestamp = 43200, rd_price = 102 * 10 ^ 16,
                  rd_supplyDelta = 2000 * 10 ^ 18, rd_newSupply = 1002000 * 10 ^ 18,
                  rd_stabilityBand = 1 \<rparr>)\<rparr>,
            example_token\<lparr>token.rebaseCount := 1, totalSupply := 1002000 * 10 ^ 18,
              gonsPerFragment := TOTAL_GONS div (1002000 * 10 ^ 18)\<rparr>)"
proof -
  have d: "calculateDeviation (102 * 10 ^ 16) = Inr (2 * 10 ^ 16)"
    by (simp add: calculateDeviation_eq TARGET_PRICE_def MAX_UINT256_def)
  have b: "getStabilityBand (2 * 10 ^ 16) = 1"
    by (simp add: getStabilityBand_def band_defs)
  have r: "canRebase 43200 example_controller = Inr True"
    by (simp add: canRebase_eq example_controller_simps REBASE_COOLDOWN_def MAX_UINT256_def)
  have n: "\<not> BAND_4_THRESHOLD \<le> 2 * 10 ^ 16" by (simp add: band_defs)
  show ?thesis
    unfolding controller_rebase_expand
    using example_token_rebase example_supply_delta d b r n
    by (simp add: example_controller_simps MAX_UINT256_def)
qed

text \<open>
  Claim C8.  With a supply of 1,000,000 units and a price of 1.02: the deviation is 2%, the band
  is 1 and its damping 10%; the raw adjustment is 20,000 units, the damped one 2,000; the cap
  is 100,000 and does not bind; the delta is +2,000 and the executed rebase leaves a supply of
  1,002,000 units (one unit is \<open>10 ^ 18\<close>).
\<close>

theorem worked_scenario:
  "totalSupply example_token = 1000000 * 10 ^ 18
   \<and> calculateDeviation (102 * 10 ^ 16) = Inr (2 * 10 ^ 16)
   \<and> getStabilityBand (2 * 10 ^ 16) = 1
   \<and> getDampingFactor 1 = 10 * 10 ^ 16
   \<and> rawAdjustment (1000000 * 10 ^ 18) (2 * 10 ^ 16) = Inr (20000 * 10 ^ 18)
   \<and> dampedAdjustment (20000 * 10 ^ 18) (10 * 10 ^ 16) = Inr (2000 * 10 ^ 18)
   \<and> maxAdjustment (1000000 * 10 ^ 18) = Inr (100000 * 10 ^ 18)
   \<and> calculateSupplyDelta example_token (102 * 10 ^ 16) 1 = Inr (2000 * 10 ^ 18)
   \<and> controller_rebase 1 2 43200 (Inr (102 * 10 ^ 16, 43200, 100)) (example_controller, example_token)
       = Inr (example_controller\<lparr>rebaseCount := 1, lastRebaseTime := 43200,
                rebaseHistory := (rebaseHistory example_controller)(1 :=
                  \<lparr> rd_timestamp = 43200, rd_price = 102 * 10 ^ 16,
                    rd_supplyDelta = 2000 * 10 ^ 18, rd_newSupply = 1002000 * 10 ^ 18,
                    rd_stabilityBand = 1 \<rparr>)\<rparr>,
              example_token\<lparr>token.rebaseCount := 1, totalSupply := 1002000 * 10 ^ 18,
                gonsPerFragment := TOTAL_GONS div (1002000 * 10 ^ 18)\<rparr>)
   \<and> totalSupply (example_token\<lparr>token.rebaseCount := 1, totalSupply := 1002000 * 10 ^ 18,
                gonsPerFragment := TOTAL_GONS div (1002000 * 10 ^ 18)\<rparr>) = 1002000 * 10 ^ 18"
proof -
  have "calculateDeviation (102 * 10 ^ 16) = Inr (2 * 10 ^ 16)"
    by (simp add: calculateDeviation_eq TARGET_PRICE_def MAX_UINT256_def)
  moreover have "getStabilityBand (2 * 10 ^ 16) = 1"
    by (simp add: getStabilityBand_def band_defs)
  moreover have "getDampingFactor 1 = 10 * 10 ^ 16"
    by (simp add: getDampingFactor_def band_defs)
  moreover have "rawAdjustment (1000000 * 10 ^ 18) (2 * 10 ^ 16) = Inr (20000 * 10 ^ 18)"
    by (simp add: rawAdjustment_def checked_defs MAX_UINT256_def)
  moreover have "dampedAdjustment (20000 * 10 ^ 18) (10 * 10 ^ 16) = Inr (2000 * 10 ^ 18)"
    by (simp add: dampedAdjustment_def checked_defs MAX_UINT256_def)
  moreover have "maxAdjustment (1000000 * 10 ^ 18) = Inr (100000 * 10 ^ 18)"
    by (simp add: maxAdjustment_def MAX_REBASE_PERCENTAGE_def checked_defs MAX_UINT256_def)
  moreover have "totalSupply example_token = 1000000 * 10 ^ 18"
    by (simp add: example_token_simps)
  ultimately show ?thesis
    using example_supply_delta example_controller_rebase by simp
qed


lemma example_dead_zone_rebase:
  "controller_rebase 1 2 43200 (Inr (1005 * 10 ^ 15, 43200, 100)) (example_controller, example_token)
     = Inr (example_controller, example_token)"
  by (simp add: controller_rebase_expand example_controller_simps canRebase_eq REBASE_COOLDOWN_def
      MAX_UINT256_def calculateDeviation_eq TARGET_PRICE_def band_defs getStabilityBand_def
      delta_defs checked_defs example_token_simps)

text \<open>The theorem for C3 at the same dead-zone call, where nothing moves, and at a price of
  1.02, where the bookkeeping advances.\<close>

theorem controller_rebase_bookkeeping_witness:
  "controller_rebase 1 2 43200 (Inr (1005 * 10 ^ 15, 43200, 100)) (example_controller, example_token)
     = Inr (example_controller, example_token)
   \<and> calculateDeviation (1005 * 10 ^ 15) = Inr (5 * 10 ^ 15)
   \<and> 5 * 10 ^ 15 < BAND_4_THRESHOLD
   \<and> calculateSupplyDelta example_token (1005 * 10 ^ 15) (getStabilityBand (5 * 10 ^ 15)) = Inr 0
   \<and> (if (0 :: int) = 0 then example_controller = example_controller \<and> example_token = example_token
       else lastRebaseTime example_controller = 43200
            \<and> rebaseCount example_controller = rebaseCount example_controller + 1
            \<and> rebase 2 0 example_token = Inr (totalSupply example_token, example_token))
   \<and> calculateDeviation (102 * 10 ^ 16) = Inr (2 * 10 ^ 16)
   \<and> 2 * 10 ^ 16 < BAND_4_THRESHOLD
   \<and> calculateSupplyDelta example_token (102 * 10 ^ 16) (getStabilityBand (2 * 10 ^ 16))
       = Inr (2000 * 10 ^ 18)
   \<and> lastRebaseTime (example_controller\<lparr>rebaseCount := 1, lastRebaseTime := 43200,
              rebaseHistory := (rebaseHistory example_controller)(1 :=
                \<lparr> rd_timestamp = 43200, rd_price = 102 * 10 ^ 16,
                  rd_supplyDelta = 2000 * 10 ^ 18, rd_newSupply = 1002000 * 10 ^ 18,
                  rd_stabilityBand = 1 \<rparr>)\<rparr>) = 43200
   \<and> rebaseCount (example_controller\<lparr>rebaseCount := 1, lastRebaseTime := 43200,
              rebaseHistory := (rebaseHistory example_controller)(1 :=
                \<lparr> rd_timestamp = 43200, rd_price = 102 * 10 ^ 16,
                  rd_supplyDelta = 2000 * 10 ^ 18, rd_newSupply = 1002000 * 10 ^ 18,
                  rd_stabilityBand = 1 \<rparr>)\<rparr>) = rebaseCount example_controller + 1"
proof -
  note h1 = example_dead_zone_rebase
  have h2: "calculateDeviation (1005 * 10 ^ 15) = Inr (5 * 10 ^ 15)"
    by (simp add: calculateDeviation_eq TARGET_PRICE_def MAX_UINT256_def)
  have h3: "5 * 10 ^ 15 < BAND_4_THRESHOLD" by (simp add: band_defs)
  have h4: "calculateSupplyDelta example_token (1005 * 10 ^ 15) (getStabilityBand (5 * 10 ^ 15)) = Inr 0"
    by (simp add: delta_defs calculateDeviation_eq TARGET_PRICE_def band_defs checked_defs
        MAX_UINT256_def example_token_simps getStabilityBand_def)
  note g1 = example_controller_rebase
  have g2: "calculateDeviation (102 * 10 ^ 16) = Inr (2 * 10 ^ 16)"
    by (simp add: calculateDeviation_eq TARGET_PRICE_def MAX_UINT256_def)
  have g3: "2 * 10 ^ 16 < BAND_4_THRESHOLD" by (simp add: band_defs)
  have g4: "calculateSupplyDelta example_token (102 * 10 ^ 16) (getStabilityBand (2 * 10 ^ 16))
       = Inr (2000 * 10 ^ 18)"
    using example_supply_delta by (simp add: getStabilityBand_def band_defs)
  have nz: "(2000 * 10 ^ 18 :: int) \<noteq> 0" by simp
  from controller_rebase_bookkeeping [OF g1 g2 g3 g4] nz
  have moved: "lastRebaseTime (example_controller\<lparr>rebaseCount := 1, lastRebaseTime := 43200,
              rebaseHistory := (rebaseHistory example_controller)(1 :=
                \<lparr> rd_timestamp = 43200, rd_price = 102 * 10 ^ 16,
                  rd_supplyDelta = 2000 * 10 ^ 18, rd_newSupply = 1002000 * 10 ^ 18,
                  rd_stabilityBand = 1 \<rparr>)\<rparr>) = 43200
    \<and> rebaseCount (example_controller\<lparr>rebaseCount := 1, lastRebaseTime := 43200,
              rebaseHistory := (rebaseHistory example_controller)(1 :=
                \<lparr> rd_timestamp = 43200, rd_price = 102 * 10 ^ 16,
                  rd_supplyDelta = 2000 * 10 ^ 18, rd_newSupply = 1002000 * 10 ^ 18,
                  rd_stabilityBand = 1 \<rparr>)\<rparr>) = rebaseCount example_controller + 1"
    by simp
  from controller_rebase_bookkeeping [OF h1 h2 h3 h4] h1 h2 h3 h4 g2 g3 g4 moved
  show ?thesis by blast
qed

lemma previewRebase_oracle_failure:
  assumes "lastRebaseTime c + REBASE_COOLDOWN \<le> MAX_UINT256"
  shows "previewRebase now c tok (Inl e) =
           Inr \<lparr> canExecute = False, currentPrice = 0, deviation = 0, projectedSupplyDelta = 0,
                 stabilityBand = 0 \<rparr>"
  using assms by (simp add: previewRebase_def canRebase_eq Let_def)

lemma previewRebase_low_confidence:
  assumes "lastRebaseTime c + REBASE_COOLDOWN \<le> MAX_UINT256" and "confidence < 50"
  shows "previewRebase now c tok (Inr (price, timestamp, confidence)) =
           Inr \<lparr> canExecute = (lastRebaseTime c + REBASE_COOLDOWN \<le> now \<and> \<not> circuitBreakerActive c),
                 currentPrice = 0, deviation = 0, projectedSupplyDelta = 0, stabilityBand = 0 \<rparr>"
  using assms by (simp add: previewRebase_def canRebase_eq Let_def)

text \<open>The arithmetic of the success branch is outside the \<^verbatim>\<open>try\<close>: a reading of \<open>10 ^ 60\<close>
  with full confidence overflows the deviation and reverts the view.\<close>

lemma previewRebase_extreme_price:
  "previewRebase 43200 example_controller example_token (Inr (10 ^ 60, 43200, 100)) = Inl Panic_Overflow"
  by (simp add: previewRebase_def canRebase_eq Let_def example_controller_simps REBASE_COOLDOWN_def
      MAX_UINT256_def calculateDeviation_eq TARGET_PRICE_def)

text \<open>
  Claim C9 at a confidence of 49 with the cooldown elapsed and the breaker off:
  \<^verbatim>\<open>previewRebase()\<close> answers zero fields but \<open>canExecute = True\<close>, while \<^verbatim>\<open>rebase()\<close> on the
  same reading reverts with "Insufficient oracle confidence".  On a failed query the \<^verbatim>\<open>catch\<close>
  branch does clear \<open>canExecute\<close>.
\<close>

theorem previewRebase_low_confidence_executable:
  "previewRebase 43200 example_controller example_token (Inr (10 ^ 18, 43200, 49))
     = Inr \<lparr> canExecute = True, currentPrice = 0, deviation = 0, projectedSupplyDelta = 0,
             stabilityBand = 0 \<rparr>
   \<and> controller_rebase 1 2 43200 (Inr (10 ^ 18, 43200, 49)) (example_controller, example_token)
     = Inl (Revert ''Insufficient oracle confidence'')
   \<and> previewRebase 43200 example_controller example_token (Inl (Revert ''Insufficient valid oracles''))
     = Inr \<lparr> canExecute = False, currentPrice = 0, deviation = 0, projectedSupplyDelta = 0,
             stabilityBand = 0 \<rparr>"
  by (simp add: previewRebase_def controller_rebase_expand canRebase_eq Let_def
      example_controller_simps REBASE_COOLDOWN_def MAX_UINT256_def)

lemma controller_rebase_breaker_active:
  "circuitBreakerActive c \<Longrightarrow> \<exists>e. controller_rebase sender this now aggregated (c, tok) = Inl e"
  by (simp add: controller_rebase_expand)

text \<open>
  Claim C2.  Whatever the state, a successful call that turns the circuit breaker on is a
  \<^verbatim>\<open>rebase()\<close> whose price reading has a deviation of at least the top band threshold; a
  successful call that turns it off is \<^verbatim>\<open>resetCircuitBreaker()\<close>; and while the breaker is on
  every \<^verbatim>\<open>rebase()\<close> attempt reverts, whatever the price, so no price reading clears it.
\<close>

theorem circuit_breaker_transitions:
  "(controller_step this call (c, tok) = Inr (c', tok')
      \<and> \<not> circuitBreakerActive c \<and> circuitBreakerActive c'
    \<longrightarrow> (\<exists>sender now price timestamp confidence dev.
          call = Call_rebase sender now (Inr (price, timestamp, confidence))
          \<and> calculateDeviation price = Inr dev \<and> BAND_4_THRESHOLD \<le> dev))
   \<and> (controller_step this1 call1 (c1, tok1) = Inr (c1', tok1')
      \<and> circuitBreakerActive c1 \<and> \<not> circuitBreakerActive c1'
    \<longrightarrow> (\<exists>sender. call1 = Call_resetCircuitBreaker sender))
   \<and> (circuitBreakerActive c2
    \<longrightarrow> (\<exists>e. controller_step this2 (Call_rebase sender2 now2 aggregated2) (c2, tok2) = Inl e))"
proof (intro conjI impI)
  assume a: "controller_step this call (c, tok) = Inr (c', tok')
      \<and> \<not> circuitBreakerActive c \<and> circuitBreakerActive c'"
  show "\<exists>sender now price timestamp confidence dev.
          call = Call_rebase sender now (Inr (price, timestamp, confidence))
          \<and> calculateDeviation price = Inr dev \<and> BAND_4_THRESHOLD \<le> dev"
  proof (cases call)
    case (Call_rebase sender now aggregated)
    with a show ?thesis
      by (auto simp: controller_rebase_expand split: if_splits sum.splits prod.splits)
  next
    case (Call_resetCircuitBreaker sender)
    with a show ?thesis by (auto simp: resetCircuitBreaker_def bind_result_eq_Inr)
  next
    case (Call_emergencyPause sender)
    with a show ?thesis by (auto simp: emergencyPause_def bind_result_eq_Inr)
  next
    case (Call_emergencyUnpause sender)
    with a show ?thesis by (auto simp: emergencyUnpause_def bind_result_eq_Inr)
  next
    case (Call_roles table)
    with a show ?thesis by auto
  qed
next
  assume a: "controller_step this1 call1 (c1, tok1) = Inr (c1', tok1')
      \<and> circuitBreakerActive c1 \<and> \<not> circuitBreakerActive c1'"
  show "\<exists>sender. call1 = Call_resetCircuitBreaker sender"
  proof (cases call1)
    case (Call_rebase sender now aggregated)
    from a have "\<exists>e. controller_rebase sender this1 now aggregated (c1, tok1) = Inl e"
      by (intro controller_rebase_breaker_active) simp
    with a Call_rebase show ?thesis by auto
  next
    case (Call_resetCircuitBreaker sender)
    then show ?thesis by simp
  next
    case (Call_emergencyPause sender)
    with a show ?thesis by (auto simp: emergencyPause_def bind_result_eq_Inr)
  next
    case (Call_emergencyUnpause sender)
    with a show ?thesis by (auto simp: emergencyUnpause_def bind_result_eq_Inr)
  next
    case (Call_roles table)
    with a show ?thesis by auto
  qed
next
  assume "circuitBreakerActive c2"
  then show "\<exists>e. controller_step this2 (Call_rebase sender2 now2 aggregated2) (c2, tok2) = Inl e"
    by (simp add: controller_rebase_breaker_active)
qed


text \<open>The theorem for C2: a price of 0.75 trips the breaker, a rebase at the target price is
  then refused, and the administrator's reset clears it.\<close>

theorem circuit_breaker_transitions_witness:
  "controller_step 2 (Call_rebase 1 43200 (Inr (75 * 10 ^ 16, 43200, 100)))
       (example_controller, example_token)
     = Inr (example_controller\<lparr>circuitBreakerActive := True\<rparr>, example_token)
   \<and> \<not> circuitBreakerActive example_controller
   \<and> circuitBreakerActive (example_controller\<lparr>circuitBreakerActive := True\<rparr>)
   \<and> (\<exists>sender now price timestamp confidence dev.
          Call_rebase 1 43200 (Inr (75 * 10 ^ 16, 43200, 100))
            = Call_rebase sender now (Inr (price, timestamp, confidence))
          \<and> calculateDeviation price = Inr dev \<and> BAND_4_THRESHOLD \<le> dev)
   \<and> controller_step 2 (Call_resetCircuitBreaker 1)
       (example_controller\<lparr>circuitBreakerActive := True\<rparr>, example_token)
     = Inr (example_controller\<lparr>circuitBreakerActive := False\<rparr>, example_token)
   \<and> \<not> circuitBreakerActive (example_controller\<lparr>circuitBreakerActive := False\<rparr>)
   \<and> (\<exists>sender. Call_resetCircuitBreaker 1 = Call_resetCircuitBreaker sender)
   \<and> (\<exists>e. controller_step 2 (Call_rebase 1 43200 (Inr (10 ^ 18, 43200, 100)))
              (example_controller\<lparr>circuitBreakerActive := True\<rparr>, example_token) = Inl e)"
proof -
  have h1: "controller_step 2 (Call_rebase 1 43200 (Inr (75 * 10 ^ 16, 43200, 100)))
       (example_controller, example_token)
     = Inr (example_controller\<lparr>circuitBreakerActive := True\<rparr>, example_token)"
    by (simp add: controller_rebase_expand example_controller_simps canRebase_eq
        REBASE_COOLDOWN_def MAX_UINT256_def calculateDeviation_eq TARGET_PRICE_def band_defs)
  have h2: "\<not> circuitBreakerActive example_controller
     \<and> circuitBreakerActive (example_controller\<lparr>circuitBreakerActive := True\<rparr>)
     \<and> \<not> circuitBreakerActive (example_controller\<lparr>circuitBreakerActive := False\<rparr>)"
    by (simp add: example_controller_simps)
  have h3: "controller_step 2 (Call_resetCircuitBreaker 1)
       (example_controller\<lparr>circuitBreakerActive := True\<rparr>, example_token)
     = Inr (example_controller\<lparr>circuitBreakerActive := False\<rparr>, example_token)"
    by (simp add: resetCircuitBreaker_def example_controller_simps checked_defs)
  from circuit_breaker_transitions
    [of 2 "Call_rebase 1 43200 (Inr (75 * 10 ^ 16, 43200, 100))" example_controller example_token
        "example_controller\<lparr>circuitBreakerActive := True\<rparr>" example_token
        2 "Call_resetCircuitBreaker 1" "example_controller\<lparr>circuitBreakerActive := True\<rparr>"
        example_token "example_controller\<lparr>circuitBreakerActive := False\<rparr>" example_token
        "example_controller\<lparr>circuitBreakerActive := True\<rparr>" 2 1 43200
        "Inr (10 ^ 18, 43200, 100)" example_token]
    h1 h2 h3
  show ?thesis by blast
qed



section \<open>Properties of the aggregator\<close>







text \<open>Outside the conditions of the comparison the code is stricter than the words of the
  specification: a feed without code reverts the query, a quote that was never updated is
  dropped whatever its age, and a time of update in the future panics.\<close>

lemma aggregate_loop_no_contract:
  assumes "isActive (table key)" and "fd (oracleAddress (table key)) = NoContract"
  shows "aggregate_loop now table fd (key # keys) acc = Inl RevertWithoutReason"
  using assms by (simp add: Let_def)

lemma aggregate_loop_never_updated:
  assumes "fd (oracleAddress (table key)) = RoundData answer 0"
  shows "aggregate_loop now table fd (key # keys) acc = aggregate_loop now table fd keys acc"
  using assms by (simp add: Let_def)

lemma aggregate_loop_future_update:
  assumes "isActive (table key)" and "fd (oracleAddress (table key)) = RoundData answer updatedAt"
    and "0 < answer" and "now < updatedAt"
  shows "aggregate_loop now table fd (key # keys) acc = Inl Panic_Overflow"
  using assms by (simp add: Let_def checked_sub_def)
































end
